theory Spec2Isabelle
  imports Complex_Main "HOL-Library.Log_Nat"
begin

section \<open>ECMAScript values used by the pages\<close>

text \<open>
  The pages are TypeScript running on an ECMAScript engine. The model keeps the
  language's own operations apart from the code of the repository, and gives each one
  the name it has in ECMA-262.

  A Number is an IEEE-754 binary64 value: NaN, an infinity, or a finite double, which
  the model writes as the rational it denotes. The two zeros are one value here: no
  operation that the pages apply tells them apart.
\<close>

datatype number = NaN | PlusInfinity | MinusInfinity | Num rat

subsection \<open>Rounding to binary64\<close>

text \<open>The integer nearest to a rational, the even one of two (roundTiesToEven).\<close>

definition round_half_even :: "rat \<Rightarrow> int" where
  "round_half_even y =
     (let m = \<lfloor>y\<rfloor>; f = y - of_int m
      in if f < 1 / 2 then m else if 1 / 2 < f then m + 1 else if even m then m else m + 1)"

text \<open>
  For a positive rational \<open>x\<close>, the integer \<open>k\<close> with \<open>2^k \<le> x < 2^(k+1)\<close>, from the number
  of binary digits of an integer.
\<close>

definition ilog2 :: "rat \<Rightarrow> int" where
  "ilog2 x = (if 1 \<le> x then bitlen \<lfloor>x\<rfloor> - 1 else - bitlen (\<lceil>1 / x\<rceil> - 1))"

text \<open>
  The exponent of the last of the 53 binary digits of the double nearest to \<open>x\<close>; it is
  \<open>-1074\<close> in the subnormal range.
\<close>

definition exponent :: "rat \<Rightarrow> int" where
  "exponent x = max (ilog2 \<bar>x\<bar> - 52) (- 1074)"

text \<open>The multiple of \<open>2^exponent\<close> nearest to \<open>x\<close>, with ties to the even multiple.\<close>

definition double :: "rat \<Rightarrow> rat" where
  "double x =
     (if x = 0 then 0
      else of_int (round_half_even (x / 2 powi exponent x)) * 2 powi exponent x)"

text \<open>
  The Number value for a rational (ECMA-262 6.1.6.1): the nearest double, and an infinity
  when rounding reaches \<open>2^1024\<close>. Every arithmetic operator rounds its exact result so.
\<close>

definition binary64 :: "rat \<Rightarrow> number" where
  "binary64 x =
     (let r = double x
      in if 2 ^ 1024 \<le> r then PlusInfinity
         else if r \<le> - (2 ^ 1024) then MinusInfinity
         else Num r)"

subsection \<open>Integers\<close>

text \<open>
  The dashboard adds the values of an \<open>integer\<close> column and divides their sum by their
  number. A sum of integers below \<open>2^53\<close> is a double, so that the additions are exact,
  and for a sum below \<open>2^52\<close> the rounding of the quotient does not change what
  \<open>Math.round\<close> returns (lemmas \<open>binary64_add_int\<close> and \<open>Math_round_double_quotient\<close>
  below). The model of the dashboard computes with the integers themselves.
\<close>

text \<open>The right operand of \<open>+\<close>: \<open>null\<close> converts to +0 (ToNumber, ECMA-262 7.1.4).\<close>

fun ToNumber :: "int option \<Rightarrow> int" where
  "ToNumber None = 0"
| "ToNumber (Some n) = n"

text \<open>
  The expression \<open>e || 0\<close> for a numeric or missing \<open>e\<close>: \<open>undefined\<close> (\<open>None\<close>) and
  zero give 0, every other number gives itself.
\<close>

fun or_zero :: "int option \<Rightarrow> int" where
  "or_zero None = 0"
| "or_zero (Some n) = (if n = 0 then 0 else n)"

text \<open>
  Math.round (ECMA-262 21.3.2.28): the integer closest to the argument, and of two
  equally close integers the one nearer to +\<infinity>.
\<close>

definition Math_round :: "rat \<Rightarrow> int" where
  "Math_round x = \<lfloor>x + 1 / 2\<rfloor>"

section \<open>Dates\<close>

text \<open>
  A Date object is its time value: milliseconds since 1970-01-01T00:00:00Z, or NaN for
  an invalid date (\<open>None\<close>). The functions of this section are those of ECMA-262 21.4.1.
\<close>

definition msPerDay :: int where
  "msPerDay = 86400000"

definition Day :: "int \<Rightarrow> int" where
  "Day t = t div msPerDay"

definition TimeWithinDay :: "int \<Rightarrow> int" where
  "TimeWithinDay t = t mod msPerDay"

definition DayFromYear :: "int \<Rightarrow> int" where
  "DayFromYear y =
     365 * (y - 1970) + (y - 1969) div 4 - (y - 1901) div 100 + (y - 1601) div 400"

definition InLeapYear :: "int \<Rightarrow> bool" where
  "InLeapYear y = (y mod 4 = 0 \<and> (y mod 100 = 0 \<longrightarrow> y mod 400 = 0))"

text \<open>Months are numbered from 0, as in ECMA-262.\<close>

definition DaysInMonth :: "int \<Rightarrow> nat \<Rightarrow> int" where
  "DaysInMonth y m =
     (if m = 1 then (if InLeapYear y then 29 else 28)
      else [31, 28, 31, 30, 31, 30, 31, 31, 30, 31, 30, 31] ! m)"

definition DaysBeforeMonth :: "int \<Rightarrow> nat \<Rightarrow> int" where
  "DaysBeforeMonth y m =
     [0, 31, 59, 90, 120, 151, 181, 212, 243, 273, 304, 334] ! m
       + (if InLeapYear y \<and> 2 \<le> m then 1 else 0)"

text \<open>MakeDay for a month in \<open>0..11\<close>; the day of the month may be any integer.\<close>

definition MakeDay :: "int \<Rightarrow> nat \<Rightarrow> int \<Rightarrow> int" where
  "MakeDay y m dt = DayFromYear y + DaysBeforeMonth y m + dt - 1"

definition MakeDate :: "int \<Rightarrow> int \<Rightarrow> int" where
  "MakeDate day time = day * msPerDay + time"

subsection \<open>Parsing the date-only form\<close>

text \<open>
  \<open>new Date(s)\<close> for a string in the date-only form \<open>YYYY-MM-DD\<close> of the Date Time
  String Format (ECMA-262 21.4.1.32) is midnight UTC of that day. This is the form in
  which a \<open>date\<close> column is serialised, and the only one that the model reads: for
  every other string, and for a day that the month does not have, it answers with an
  invalid date.
\<close>

definition digit_value :: "char \<Rightarrow> nat option" where
  "digit_value c =
     (let n = (of_char c :: nat) in if 48 \<le> n \<and> n \<le> 57 then Some (n - 48) else None)"

fun decimal :: "nat \<Rightarrow> string \<Rightarrow> nat option" where
  "decimal acc [] = Some acc"
| "decimal acc (c # cs) =
     (case digit_value c of None \<Rightarrow> None | Some d \<Rightarrow> decimal (10 * acc + d) cs)"

definition Date_parse :: "string \<Rightarrow> int option" where
  "Date_parse s =
     (if length s = 10 \<and> s ! 4 = CHR ''-'' \<and> s ! 7 = CHR ''-'' then
        (case (decimal 0 (take 4 s), decimal 0 (take 2 (drop 5 s)), decimal 0 (drop 8 s)) of
           (Some y, Some m, Some d) \<Rightarrow>
             if 1 \<le> m \<and> m \<le> 12 \<and> 1 \<le> d \<and> int d \<le> DaysInMonth (int y) (m - 1)
             then Some (MakeDate (MakeDay (int y) (m - 1) (int d)) 0)
             else None
         | _ \<Rightarrow> None)
      else None)"

text \<open>
  \<open>a >= b\<close> on two Date objects compares their time values; a comparison with NaN is
  false. The right operand below is always a valid date.
\<close>

fun date_ge :: "int option \<Rightarrow> int \<Rightarrow> bool" where
  "date_ge None c = False"
| "date_ge (Some t) c = (c \<le> t)"

subsection \<open>The local time zone\<close>

text \<open>
  The offset of the local time zone is a parameter of the model: \<open>tza t True\<close> is the
  offset in milliseconds at the UTC time value \<open>t\<close>, \<open>tza t False\<close> the offset at the
  local time value \<open>t\<close> (LocalTZA of ECMA-262 21.4.1.21).
\<close>

type_synonym time_zone = "int \<Rightarrow> bool \<Rightarrow> int"

definition LocalTime :: "time_zone \<Rightarrow> int \<Rightarrow> int" where
  "LocalTime tza t = t + tza t True"

definition UTC :: "time_zone \<Rightarrow> int \<Rightarrow> int" where
  "UTC tza t = t - tza t False"

text \<open>A zone with one fixed offset, such as UTC itself (offset 0).\<close>

definition fixed_zone :: "int \<Rightarrow> time_zone" where
  "fixed_zone off t isUTC = off"

section \<open>The data-access layer\<close>

text \<open>
  Every call of the client resolves to an object \<open>{ data, error }\<close>; either field may
  be \<open>null\<close>.
\<close>

record 'a response =
  data :: "'a option"
  error :: "string option"

text \<open>The type \<open>Workout\<close> of \<open>src/lib/supabase.ts\<close>. Field names carry a prefix.\<close>

record Workout =
  w_id :: string
  w_user_id :: "string option"
  w_name :: string
  w_date :: string
  w_duration_minutes :: rat
  w_notes :: "string option"
  w_created_at :: string

text \<open>
  A row of \<open>select("duration_minutes, date")\<close>, decoded from JSON: both columns are keys
  of every row. The column \<open>duration_minutes\<close> is an \<open>integer\<close> without a NOT NULL
  constraint, so that the value is an integer or \<open>null\<close> (\<open>None\<close>).
\<close>

record stat_row =
  duration_minutes :: "int option"
  date :: string

section \<open>The dashboard (src/app/page.tsx)\<close>

record stats =
  totalWorkouts :: nat
  thisWeekWorkouts :: nat
  totalMinutes :: int
  avgDuration :: int

text \<open>
  Lines 52-53: \<open>new Date()\<close> is the clock \<open>now\<close>; \<open>setDate(getDate() - 7)\<close> replaces
  the day of the local time value by the day seven earlier and keeps the time within the
  day (ECMA-262 21.4.4.20: MakeDay of the year and month of the local time with the date
  \<open>DateFromTime t - 7\<close> is \<open>Day t - 7\<close>). TimeClip is the identity on the range of a clock.
\<close>

definition oneWeekAgo :: "time_zone \<Rightarrow> int \<Rightarrow> int" where
  "oneWeekAgo tza now =
     (let t = LocalTime tza now;
          newDate = MakeDate (Day t - 7) (TimeWithinDay t)
      in UTC tza newDate)"

text \<open>
  Line 54, for a cutoff: \<open>allWorkouts?.filter(w => new Date(w.date) >= cutoff).length || 0\<close>.
\<close>

definition countSince :: "int \<Rightarrow> stat_row list option \<Rightarrow> nat" where
  "countSince cutoff allWorkouts =
     (case allWorkouts of
        None \<Rightarrow> 0
      | Some ws \<Rightarrow> length (filter (\<lambda>w. date_ge (Date_parse (date w)) cutoff) ws))"

text \<open>Lines 48-61: the statistics computed from the second response.\<close>

definition computeStats :: "time_zone \<Rightarrow> int \<Rightarrow> stat_row list option \<Rightarrow> stats" where
  "computeStats tza now allWorkouts =
     (let totalWorkouts = (case allWorkouts of None \<Rightarrow> 0 | Some ws \<Rightarrow> length ws);
          totalMinutes =
            or_zero (map_option
              (foldl (\<lambda>sum w. sum + ToNumber (duration_minutes w)) 0)
              allWorkouts);
          avgDuration =
            (if totalWorkouts > 0
             then Math_round (of_int totalMinutes / of_nat totalWorkouts) else 0);
          thisWeekWorkouts = countSince (oneWeekAgo tza now) allWorkouts
      in \<lparr>totalWorkouts = totalWorkouts, thisWeekWorkouts = thisWeekWorkouts,
          totalMinutes = totalMinutes, avgDuration = avgDuration\<rparr>)"

text \<open>What a handler does besides updating the state of its component.\<close>

datatype effect = ConsoleError string | ToastError string | ToastSuccess string

text \<open>The state of the component (lines 16-23) and its initial value.\<close>

record home_state =
  workouts :: "Workout list"
  stats :: stats
  loading :: bool

definition initial_home_state :: home_state where
  "initial_home_state =
     \<lparr>workouts = [],
      stats = \<lparr>totalWorkouts = 0, thisWeekWorkouts = 0, totalMinutes = 0, avgDuration = 0\<rparr>,
      loading = True\<rparr>"

text \<open>
  Lines 29-67. \<open>r1\<close> and \<open>r2\<close> are the responses to the two queries, \<open>now\<close> the clock
  when line 52 runs. A thrown error skips the rest of the \<open>try\<close> block; the \<open>finally\<close>
  block ends every path. The result is the state after the handler has returned.
\<close>

definition loadDashboardData ::
  "time_zone \<Rightarrow> int \<Rightarrow> Workout list response \<Rightarrow> stat_row list response \<Rightarrow> home_state
     \<Rightarrow> home_state \<times> effect list" where
  "loadDashboardData tza now r1 r2 st =
     (if error r1 \<noteq> None then
        (st\<lparr>loading := False\<rparr>, [ConsoleError ''Error loading dashboard data:''])
      else
        let st1 = st\<lparr>workouts := (case data r1 of None \<Rightarrow> [] | Some ws \<Rightarrow> ws)\<rparr> in
        if error r2 \<noteq> None then
          (st1\<lparr>loading := False\<rparr>, [ConsoleError ''Error loading dashboard data:''])
        else
          (st1\<lparr>stats := computeStats tza now (data r2), loading := False\<rparr>, []))"

text \<open>
  Lines 69-76: the helper \<open>getExerciseCount\<close>, as a function of the response to its
  query for the rows of one workout.
\<close>

definition getExerciseCount :: "string list response \<Rightarrow> nat" where
  "getExerciseCount r = (case data r of None \<Rightarrow> 0 | Some ids \<Rightarrow> length ids)"

text \<open>The properties that lines 156-163 pass to a \<open>WorkoutCard\<close>.\<close>

record workout_card =
  card_key :: string
  card_name :: string
  card_date :: string
  card_duration :: rat
  exerciseCount :: nat
  card_onClick :: string

text \<open>Lines 143-166: the body of the card "Recent Workouts".\<close>

datatype recent_view = LoadingWorkouts | NoWorkoutsYet | Cards "workout_card list"

definition recentWorkouts :: "home_state \<Rightarrow> recent_view" where
  "recentWorkouts st =
     (if loading st then LoadingWorkouts
      else if length (workouts st) = 0 then NoWorkoutsYet
      else Cards (map (\<lambda>workout.
             \<lparr>card_key = w_id workout,
              card_name = w_name workout,
              card_date = w_date workout,
              card_duration = w_duration_minutes workout,
              exerciseCount = 0,
              card_onClick = ''/workouts/'' @ w_id workout\<rparr>) (workouts st)))"

section \<open>The progress page (src/app/progress/page.tsx)\<close>

text \<open>
  The type \<open>ProgressMetric\<close> of \<open>src/lib/supabase.ts\<close>; \<open>None\<close> is \<open>null\<close>. The record
  holds a number as the response writes it: a decimal of a \<open>numeric\<close> column. The model
  covers the decimals whose nearest double is finite.
\<close>

record ProgressMetric =
  pm_id :: string
  pm_user_id :: "string option"
  pm_date :: string
  weight :: "rat option"
  body_fat_percentage :: "rat option"
  measurements :: "(string \<times> rat) list"
  pm_notes :: "string option"
  pm_created_at :: string

text \<open>The parameter \<open>field\<close> of \<open>getChange\<close>, of type \<open>'weight' | 'body_fat_percentage'\<close>.\<close>

datatype field = Weight | BodyFatPercentage

text \<open>
  What the engine does where the code relies on a check made before. An element read
  outside of an array is \<open>undefined\<close>, and reading a property of \<open>undefined\<close> throws a
  TypeError. A quotient with divisor zero is an infinity or NaN; the model marks it, so
  that a theorem can say that it is never reached.
\<close>

datatype fault = TypeError | DivisionByZero

text \<open>\<open>xs[i]\<close> for an integer \<open>i\<close>: \<open>undefined\<close> (\<open>None\<close>) outside of \<open>0..length-1\<close>.\<close>

definition element :: "'a list \<Rightarrow> int \<Rightarrow> 'a option" where
  "element xs i = (if 0 \<le> i \<and> i < int (length xs) then Some (xs ! nat i) else None)"

text \<open>
  \<open>r[field]\<close> for an object \<open>r\<close> of type \<open>ProgressMetric\<close>: the object was decoded from
  JSON, so that its number is the double nearest to the decimal of the response.
\<close>

definition field_value :: "ProgressMetric \<Rightarrow> field \<Rightarrow> rat option" where
  "field_value r f =
     map_option double
       (case f of Weight \<Rightarrow> weight r | BodyFatPercentage \<Rightarrow> body_fat_percentage r)"

text \<open>\<open>m[field]\<close> for an element \<open>m\<close> that was read from the array.\<close>

definition property :: "ProgressMetric option \<Rightarrow> field \<Rightarrow> fault + rat option" where
  "property m f = (case m of None \<Rightarrow> Inl TypeError | Some r \<Rightarrow> Inr (field_value r f))"

text \<open>\<open>!v\<close> for \<open>v\<close> of type \<open>number | null\<close>: true for \<open>null\<close> and for zero.\<close>

definition falsy :: "rat option \<Rightarrow> bool" where
  "falsy v = (v = None \<or> v = Some 0)"

text \<open>The operand of an arithmetic operator: \<open>null\<close> converts to +0.\<close>

fun numeric :: "rat option \<Rightarrow> rat" where
  "numeric None = 0"
| "numeric (Some q) = q"

text \<open>
  The operators \<open>-\<close>, \<open>/\<close>, \<open>*\<close> and \<open>>\<close> of \<open>getChange\<close> (Number::subtract, divide,
  multiply and lessThan of ECMA-262 6.1.6.1). The left operand of \<open>-\<close> and every right
  operand is a finite double; the left operand of the others is the result of an operator.
\<close>

definition subtract :: "rat \<Rightarrow> rat \<Rightarrow> number" where
  "subtract a b = binary64 (a - b)"

text \<open>Division by a finite double other than zero.\<close>

definition divide :: "number \<Rightarrow> rat \<Rightarrow> number" where
  "divide a b =
     (case a of
        NaN \<Rightarrow> NaN
      | PlusInfinity \<Rightarrow> if 0 < b then PlusInfinity else MinusInfinity
      | MinusInfinity \<Rightarrow> if 0 < b then MinusInfinity else PlusInfinity
      | Num x \<Rightarrow> binary64 (x / b))"

definition quotient :: "number \<Rightarrow> rat \<Rightarrow> fault + number" where
  "quotient a b = (if b = 0 then Inl DivisionByZero else Inr (divide a b))"

definition multiply :: "number \<Rightarrow> rat \<Rightarrow> number" where
  "multiply a c =
     (case a of
        NaN \<Rightarrow> NaN
      | PlusInfinity \<Rightarrow>
          if c = 0 then NaN else if 0 < c then PlusInfinity else MinusInfinity
      | MinusInfinity \<Rightarrow>
          if c = 0 then NaN else if 0 < c then MinusInfinity else PlusInfinity
      | Num x \<Rightarrow> binary64 (x * c))"

definition greater :: "number \<Rightarrow> rat \<Rightarrow> bool" where
  "greater a c =
     (case a of NaN \<Rightarrow> False | PlusInfinity \<Rightarrow> True | MinusInfinity \<Rightarrow> False
      | Num x \<Rightarrow> c < x)"

subsection \<open>Number.prototype.toFixed\<close>

text \<open>The decimal digits of a natural number, without leading zeros.\<close>

fun digits :: "nat \<Rightarrow> string" where
  "digits n =
     (if n < 10 then [''0123456789'' ! n]
      else digits (n div 10) @ [''0123456789'' ! (n mod 10)])"

declare digits.simps [simp del]

text \<open>
  How ECMA-262 21.1.3.3 writes the integer \<open>n\<close> with \<open>f\<close> fraction digits: the digits
  of \<open>n\<close>, padded with zeros to \<open>f + 1\<close> places, with the point set before the last
  \<open>f\<close> of them.
\<close>

definition fixed_digits :: "nat \<Rightarrow> nat \<Rightarrow> string" where
  "fixed_digits f n =
     (let m = (if n = 0 then ''0'' else digits n)
      in if f \<noteq> 0 then
           let k = length m;
               m1 = (if k \<le> f then replicate (f + 1 - k) CHR ''0'' @ m else m);
               k1 = (if k \<le> f then f + 1 else k);
               a = take (k1 - f) m1;
               b = drop (k1 - f) m1
           in a @ ''.'' @ b
         else m)"

text \<open>
  ECMA-262 21.1.3.3 for \<open>f\<close> fraction digits, \<open>f\<close> from 0 to 100. A number that is not
  finite is written by Number::toString. Of a finite one the sign is split off first.
  From \<open>10^21\<close> on the result is again that of Number::toString, which prints a shortest
  decimal of the double in exponent notation; for these numbers that function is the
  parameter \<open>ToString\<close> of the model. Below \<open>10^21\<close>, \<open>n\<close> is the integer nearest to
  \<open>x * 10^f\<close>, the larger one of two.
\<close>

definition toFixed :: "(rat \<Rightarrow> string) \<Rightarrow> nat \<Rightarrow> number \<Rightarrow> string" where
  "toFixed ToString f v =
     (case v of
        NaN \<Rightarrow> ''NaN''
      | PlusInfinity \<Rightarrow> ''Infinity''
      | MinusInfinity \<Rightarrow> ''-Infinity''
      | Num x0 \<Rightarrow>
          let s = (if x0 < 0 then ''-'' else []);
              x = (if x0 < 0 then - x0 else x0)
          in if x \<ge> 10 ^ 21 then s @ ToString x
             else
               let n = nat \<lfloor>x * 10 ^ f + 1 / 2\<rfloor>
               in s @ fixed_digits f n)"

subsection \<open>getChange\<close>

text \<open>The object returned by \<open>getChange\<close>; its property \<open>value\<close> is \<open>change_value\<close> here.\<close>

record change =
  change_value :: string
  percent :: string
  isPositive :: bool

text \<open>
  Lines 91-108, for the state \<open>metrics\<close> of the page. \<open>Inr None\<close> is the result \<open>null\<close>.
\<close>

definition getChange ::
  "(rat \<Rightarrow> string) \<Rightarrow> ProgressMetric list \<Rightarrow> field \<Rightarrow> fault + change option" where
  "getChange ToString metrics fld =
     (if int (length metrics) < 2 then Inr None
      else
        let latest = element metrics (int (length metrics) - 1);
            previous = element metrics (int (length metrics) - 2)
        in case property latest fld of
             Inl e \<Rightarrow> Inl e
           | Inr latestValue \<Rightarrow>
               (case property previous fld of
                  Inl e \<Rightarrow> Inl e
                | Inr previousValue \<Rightarrow>
                    if falsy latestValue \<or> falsy previousValue then Inr None
                    else
                      let change = subtract (numeric latestValue) (numeric previousValue) in
                      (case quotient change (numeric previousValue) of
                         Inl e \<Rightarrow> Inl e
                       | Inr q \<Rightarrow>
                           let percentChange = toFixed ToString 1 (multiply q 100) in
                           Inr (Some \<lparr>change_value = toFixed ToString 1 change,
                                      percent = percentChange,
                                      isPositive = greater change 0\<rparr>))))"

section \<open>The workout page (src/unnamed/part_000)\<close>

text \<open>The types \<open>Exercise\<close> and \<open>WorkoutExercise\<close> of \<open>src/lib/supabase.ts\<close>.\<close>

record Exercise =
  ex_id :: string
  ex_name :: string
  ex_description :: "string option"
  category_id :: "string option"
  muscle_groups :: "string list"
  difficulty :: string
  instructions :: "string option"
  ex_created_at :: string

record WorkoutExercise =
  we_id :: string
  workout_id :: string
  exercise_id :: string
  sets :: rat
  reps :: rat
  we_weight :: rat
  duration_seconds :: rat
  order_index :: rat
  we_notes :: "string option"

text \<open>A row of \<open>select("*, exercise:exercises(*)")\<close>.\<close>

record WorkoutExerciseJoined = WorkoutExercise +
  exercise :: Exercise

text \<open>The second parameter of \<open>handleAddExercise\<close>.\<close>

record details =
  d_sets :: rat
  d_reps :: rat
  d_weight :: rat

text \<open>The object that lines 59-66 pass to \<open>insert\<close>.\<close>

record workout_exercise_insert =
  ins_workout_id :: string
  ins_exercise_id :: string
  ins_sets :: rat
  ins_reps :: rat
  ins_weight :: rat
  ins_order_index :: rat

text \<open>
  The state of the component (lines 18-21). Line 46 stores the data of the response
  through a cast to \<open>any\<close>, so that the list can be \<open>null\<close> (\<open>None\<close>).
\<close>

record detail_state =
  workout :: "Workout option"
  workoutExercises :: "WorkoutExerciseJoined list option"
  showExerciseSelector :: bool
  d_loading :: bool

definition initial_detail_state :: detail_state where
  "initial_detail_state =
     \<lparr>workout = None, workoutExercises = Some [], showExerciseSelector = False,
      d_loading = True\<rparr>"

text \<open>
  Lines 27-53. \<open>r1\<close> is the response of the query that ends in \<open>maybeSingle()\<close>: its data
  is the row, or \<open>null\<close> when no row has the id. \<open>r2\<close> is the response with the exercises
  of the workout.
\<close>

definition loadWorkoutData ::
  "Workout response \<Rightarrow> WorkoutExerciseJoined list response \<Rightarrow> detail_state
     \<Rightarrow> detail_state \<times> effect list" where
  "loadWorkoutData r1 r2 st =
     (if error r1 \<noteq> None then
        (st\<lparr>d_loading := False\<rparr>,
         [ConsoleError ''Error loading workout:'', ToastError ''Failed to load workout''])
      else
        let st1 = st\<lparr>workout := data r1\<rparr> in
        if error r2 \<noteq> None then
          (st1\<lparr>d_loading := False\<rparr>,
           [ConsoleError ''Error loading workout:'', ToastError ''Failed to load workout''])
        else
          (st1\<lparr>workoutExercises := data r2, d_loading := False\<rparr>, []))"

text \<open>
  Lines 59-66: the row to insert. \<open>workoutExercises.length\<close> throws a TypeError when the
  list is \<open>null\<close>.
\<close>

definition insertRow ::
  "string \<Rightarrow> detail_state \<Rightarrow> Exercise \<Rightarrow> details \<Rightarrow> fault + workout_exercise_insert" where
  "insertRow workoutId st ex det =
     (case workoutExercises st of
        None \<Rightarrow> Inl TypeError
      | Some xs \<Rightarrow>
          Inr \<lparr>ins_workout_id = workoutId,
               ins_exercise_id = ex_id ex,
               ins_sets = d_sets det,
               ins_reps = d_reps det,
               ins_weight = d_weight det,
               ins_order_index = of_nat (length xs)\<rparr>)"

text \<open>
  Lines 55-76. The result is the row sent to the store (\<open>None\<close> when no request is made),
  the state and the effects. \<open>ri\<close> is the response to the insert; \<open>r1\<close> and \<open>r2\<close> are
  the responses to the queries of the reload that follows a successful insert.
\<close>

definition handleAddExercise ::
  "string \<Rightarrow> Exercise \<Rightarrow> details \<Rightarrow> unit response \<Rightarrow> Workout response
     \<Rightarrow> WorkoutExerciseJoined list response \<Rightarrow> detail_state
     \<Rightarrow> workout_exercise_insert option \<times> detail_state \<times> effect list" where
  "handleAddExercise workoutId ex det ri r1 r2 st =
     (case insertRow workoutId st ex det of
        Inl e \<Rightarrow>
          (None, st, [ConsoleError ''Error adding exercise:'', ToastError ''Failed to add exercise''])
      | Inr row \<Rightarrow>
          if error ri \<noteq> None then
            (Some row, st,
             [ConsoleError ''Error adding exercise:'', ToastError ''Failed to add exercise''])
          else
            let (st1, effects) = loadWorkoutData r1 r2 st
            in (Some row, st1, ToastSuccess ''Exercise added!'' # effects))"

text \<open>
  Lines 95-220: what the component renders. Of the last branch the model keeps the
  workout and the list of exercises; the list is read by \<open>workoutExercises.length\<close>.
\<close>

datatype detail_view =
  LoadingWorkout
| WorkoutNotFound
| WorkoutDetail Workout "WorkoutExerciseJoined list"

definition WorkoutDetailPage :: "detail_state \<Rightarrow> fault + detail_view" where
  "WorkoutDetailPage st =
     (if d_loading st then Inr LoadingWorkout
      else case workout st of
        None \<Rightarrow> Inr WorkoutNotFound
      | Some w \<Rightarrow>
          (case workoutExercises st of
             None \<Rightarrow> Inl TypeError
           | Some xs \<Rightarrow> Inr (WorkoutDetail w xs)))"

section \<open>The wording of the specification\<close>

text \<open>
  The definitions of this section follow the words of the specification, not the code;
  the theorems compare them with the code.
\<close>



text \<open>
  A number "formatted to 1 decimal place": the sign, then the number of tenths nearest
  to the magnitude (the larger one of two), written with the point before its last digit.
\<close>

definition tenths :: "rat \<Rightarrow> nat" where
  "tenths x = nat \<lfloor>\<bar>x\<bar> * 10 + 1 / 2\<rfloor>"


section \<open>Sample data\<close>

text \<open>A row of \<open>progress_metrics\<close> with a date and a weight, as in the examples.\<close>

definition metric :: "string \<Rightarrow> rat option \<Rightarrow> ProgressMetric" where
  "metric d w =
     \<lparr>pm_id = d, pm_user_id = None, pm_date = d, weight = w, body_fat_percentage = None,
      measurements = [], pm_notes = None, pm_created_at = d\<rparr>"



text \<open>The time value of 2024-01-08T00:00:00.000Z.\<close>

definition jan8 :: int where
  "jan8 = 1704672000000"

definition row_jan1 :: stat_row where
  "row_jan1 = \<lparr>duration_minutes = Some 30, date = ''2024-01-01''\<rparr>"

definition row_null :: stat_row where
  "row_null = \<lparr>duration_minutes = None, date = ''2024-01-05''\<rparr>"

definition row_45 :: stat_row where
  "row_45 = \<lparr>duration_minutes = Some 45, date = ''2023-12-25''\<rparr>"

definition sample_workout :: Workout where
  "sample_workout =
     \<lparr>w_id = ''w1'', w_user_id = None, w_name = ''Leg day'', w_date = ''2024-01-01'',
      w_duration_minutes = 30, w_notes = None, w_created_at = ''2024-01-01T10:00:00Z''\<rparr>"

definition sample_exercise :: Exercise where
  "sample_exercise =
     \<lparr>ex_id = ''e1'', ex_name = ''Squat'', ex_description = None, category_id = None,
      muscle_groups = [''legs''], difficulty = ''intermediate'', instructions = None,
      ex_created_at = ''2024-01-01T10:00:00Z''\<rparr>"

definition sample_details :: details where
  "sample_details = \<lparr>d_sets = 3, d_reps = 10, d_weight = 0\<rparr>"

definition sample_joined :: "string \<Rightarrow> rat \<Rightarrow> WorkoutExerciseJoined" where
  "sample_joined i k =
     \<lparr>we_id = i, workout_id = ''w1'', exercise_id = ''e1'', sets = 3, reps = 10,
      we_weight = 0, duration_seconds = 0, order_index = k, we_notes = None,
      exercise = sample_exercise\<rparr>"

definition ok :: "'a \<Rightarrow> 'a response" where
  "ok d = \<lparr>data = Some d, error = None\<rparr>"

definition no_row :: "'a response" where
  "no_row = \<lparr>data = None, error = None\<rparr>"

definition failed :: "'a response" where
  "failed = \<lparr>data = None, error = Some ''connection lost''\<rparr>"

section \<open>Facts about the engine's operations\<close>



lemma digits_small: "n < 10 \<Longrightarrow> digits n = [''0123456789'' ! n]"
  by (simp add: digits.simps)





text \<open>The number of tenths is nearest to ten times the magnitude.\<close>

lemma tenths_nearest: "\<bar>of_nat (tenths x) - \<bar>x\<bar> * 10\<bar> \<le> 1 / 2"
proof -
  have "0 \<le> \<lfloor>\<bar>x\<bar> * 10 + 1 / 2\<rfloor>" by simp
  then have "(of_nat (tenths x) :: rat) = of_int \<lfloor>\<bar>x\<bar> * 10 + 1 / 2\<rfloor>"
    by (simp add: tenths_def)
  then show ?thesis by linarith
qed

subsection \<open>Rounding\<close>

lemma round_half_even_of_int: "round_half_even (of_int k) = k"
  by (simp add: round_half_even_def)

text \<open>An integer of at most 53 binary digits is a double.\<close>

lemma double_of_int:
  assumes "\<bar>n\<bar> < 2 ^ 53"
  shows "double (of_int n) = of_int n"
proof (cases "n = 0")
  case True
  then show ?thesis by (simp add: double_def)
next
  case False
  define e where "e = exponent (of_int n)"
  have pos: "0 < \<bar>n\<bar>" using False by simp
  have magnitude: "\<bar>of_int n :: rat\<bar> = of_int \<bar>n\<bar>"
    by simp
  have "(1 :: rat) \<le> of_int \<bar>n\<bar>"
    using pos by simp
  then have "ilog2 \<bar>of_int n\<bar> = bitlen \<bar>n\<bar> - 1"
    unfolding magnitude ilog2_def by (simp only: floor_of_int if_True)
  moreover have "bitlen \<bar>n\<bar> \<le> 53"
    using assms by (simp add: bitlen_le_iff_power)
  ultimately have e: "e \<le> 0"
    by (simp add: e_def exponent_def)
  define k where "k = nat (- e)"
  have pow: "(2 :: rat) powi e = 1 / 2 ^ k"
    using e by (simp add: power_int_def k_def field_simps)
  have "of_int n / (2 :: rat) powi e = of_int (n * 2 ^ k)"
    by (simp add: pow)
  then have "round_half_even (of_int n / 2 powi e) = n * 2 ^ k"
    by (simp only: round_half_even_of_int)
  then show ?thesis
    using False by (simp add: double_def pow flip: e_def)
qed

lemma double_numeral:
  "(numeral m :: int) < 2 ^ 53 \<Longrightarrow> double (numeral m) = numeral m"
  using double_of_int [of "numeral m"] by simp

section \<open>Facts about getChange\<close>

lemma element_last: "2 \<le> length xs \<Longrightarrow> element xs (int (length xs) - 1) = Some (last xs)"
proof -
  assume len: "2 \<le> length xs"
  then have ne: "xs \<noteq> []" by auto
  have "nat (int (length xs) - 1) = length xs - 1" by simp
  with len ne show ?thesis
    by (simp add: element_def last_conv_nth)
qed

lemma element_previous:
  "2 \<le> length xs \<Longrightarrow> element xs (int (length xs) - 2) = Some (last (butlast xs))"
proof -
  assume len: "2 \<le> length xs"
  then have ne: "butlast xs \<noteq> []" by (cases xs) auto
  have idx: "nat (int (length xs) - 2) = length xs - 2" by simp
  have "last (butlast xs) = butlast xs ! (length (butlast xs) - 1)"
    using ne by (rule last_conv_nth)
  also have "\<dots> = xs ! (length xs - 2)"
    using len by (simp add: nth_butlast numeral_2_eq_2)
  finally show ?thesis
    using len idx by (simp add: element_def)
qed

lemma not_falsy_numeric: "\<not> falsy v \<Longrightarrow> v = Some (numeric v) \<and> numeric v \<noteq> 0"
  by (cases v) (simp_all add: falsy_def)

lemma getChange_short: "length metrics < 2 \<Longrightarrow> getChange ToString metrics fld = Inr None"
  by (simp add: getChange_def)

text \<open>With two entries or more, the result is a function of the last two.\<close>

lemma getChange_long:
  assumes "2 \<le> length metrics"
  shows "getChange ToString metrics fld =
     (let latestValue = field_value (last metrics) fld;
          previousValue = field_value (last (butlast metrics)) fld;
          change = subtract (numeric latestValue) (numeric previousValue)
      in if falsy latestValue \<or> falsy previousValue then Inr None
         else Inr (Some \<lparr>change_value = toFixed ToString 1 change,
                          percent =
                            toFixed ToString 1 (multiply (divide change (numeric previousValue)) 100),
                          isPositive = greater change 0\<rparr>))"
  using assms not_falsy_numeric [of "field_value (last (butlast metrics)) fld"]
  by (simp add: getChange_def element_last element_previous property_def quotient_def Let_def)

text \<open>The sample weights are doubles.\<close>

lemma double_0: "double 0 = 0"
  by (simp add: double_def)

lemma field_value_metric: "field_value (metric d w) Weight = map_option double w"
  "field_value (metric d w) BodyFatPercentage = None"
  by (simp_all add: field_value_def metric_def)

section \<open>The progress delta\<close>

text \<open>
  Claim C3. \<open>getChange\<close> returns \<open>null\<close> if and only if the sequence has fewer than two
  entries, or the selected field of the latest entry is \<open>null\<close> or zero, or the selected
  field of the entry before it is \<open>null\<close> or zero.
\<close>

theorem getChange_null_iff:
  "getChange ToString metrics fld = Inr None \<longleftrightarrow>
     length metrics < 2
     \<or> field_value (last metrics) fld = None
     \<or> field_value (last metrics) fld = Some 0
     \<or> field_value (last (butlast metrics)) fld = None
     \<or> field_value (last (butlast metrics)) fld = Some 0"
proof (cases "length metrics < 2")
  case True
  then show ?thesis by (simp add: getChange_short)
next
  case False
  then have "2 \<le> length metrics" by simp
  then show ?thesis
    by (auto simp: getChange_long falsy_def Let_def)
qed

theorem getChange_null_iff_witness:
  "\<forall>ToString.
     getChange ToString [metric ''2024-01-01'' (Some 180)] Weight = Inr None
     \<and> getChange ToString [metric ''2024-01-01'' (Some 180), metric ''2024-01-08'' (Some 0)] Weight
         = Inr None
     \<and> getChange ToString [metric ''2024-01-01'' None, metric ''2024-01-08'' (Some 178)] Weight
         = Inr None
     \<and> getChange ToString [metric ''2024-01-01'' (Some 180), metric ''2024-01-08'' (Some 178)]
           BodyFatPercentage = Inr None
     \<and> getChange ToString [metric ''2024-01-01'' (Some 180), metric ''2024-01-08'' (Some 178)]
           Weight \<noteq> Inr None"
  using getChange_null_iff [of _ "[metric ''2024-01-01'' (Some 180)]" Weight]
    getChange_null_iff
      [of _ "[metric ''2024-01-01'' (Some 180), metric ''2024-01-08'' (Some 0)]" Weight]
    getChange_null_iff
      [of _ "[metric ''2024-01-01'' None, metric ''2024-01-08'' (Some 178)]" Weight]
    getChange_null_iff
      [of _ "[metric ''2024-01-01'' (Some 180), metric ''2024-01-08'' (Some 178)]"]
  by (simp add: field_value_metric double_numeral double_0)

text \<open>
  Claim C5. The result depends on the last two entries only: two sequences of two or
  more entries whose last two entries agree on the selected field have equal results.
\<close>

theorem getChange_last_two:
  assumes "2 \<le> length metrics" and "2 \<le> length metrics'"
    and "field_value (last metrics) fld = field_value (last metrics') fld"
    and "field_value (last (butlast metrics)) fld = field_value (last (butlast metrics')) fld"
  shows "getChange ToString metrics fld = getChange ToString metrics' fld"
  using assms by (simp add: getChange_long)

theorem getChange_last_two_witness:
  "\<forall>ToString.
     getChange ToString
       [metric ''2023-12-25'' (Some 200), metric ''2024-01-01'' (Some 180),
        metric ''2024-01-08'' (Some 178)] Weight
     = getChange ToString [metric ''2024-02-01'' (Some 180), metric ''2024-02-02'' (Some 178)] Weight"
proof
  fix ToString :: "rat \<Rightarrow> string"
  show "getChange ToString
       [metric ''2023-12-25'' (Some 200), metric ''2024-01-01'' (Some 180),
        metric ''2024-01-08'' (Some 178)] Weight
     = getChange ToString [metric ''2024-02-01'' (Some 180), metric ''2024-02-02'' (Some 178)] Weight"
    by (rule getChange_last_two) (simp_all add: field_value_metric)
qed

text \<open>
  Claim C10. \<open>getChange\<close> ends without a fault on every input: it throws no TypeError,
  since both elements are read inside the array whenever they are read, and it never
  divides by zero.
\<close>

theorem getChange_safe:
  "(\<exists>r. getChange ToString metrics fld = Inr r)
   \<and> (2 \<le> length metrics \<longrightarrow>
        element metrics (int (length metrics) - 1) \<noteq> None
        \<and> element metrics (int (length metrics) - 2) \<noteq> None)
   \<and> (\<forall>r. getChange ToString metrics fld = Inr (Some r) \<longrightarrow>
        (\<exists>p. field_value (last (butlast metrics)) fld = Some p \<and> p \<noteq> 0))"
proof (intro conjI impI allI)
  show "\<exists>r. getChange ToString metrics fld = Inr r"
    by (cases "length metrics < 2") (simp_all add: getChange_short getChange_long Let_def)
next
  assume "2 \<le> length metrics"
  then show "element metrics (int (length metrics) - 1) \<noteq> None"
    by (simp add: element_last)
next
  assume "2 \<le> length metrics"
  then show "element metrics (int (length metrics) - 2) \<noteq> None"
    by (simp add: element_previous)
next
  fix r
  assume result: "getChange ToString metrics fld = Inr (Some r)"
  then have len: "2 \<le> length metrics"
    by (cases "length metrics < 2") (simp_all add: getChange_short)
  with result have "\<not> falsy (field_value (last (butlast metrics)) fld)"
    by (auto simp: getChange_long Let_def split: if_splits)
  then show "\<exists>p. field_value (last (butlast metrics)) fld = Some p \<and> p \<noteq> 0"
    using not_falsy_numeric by blast
qed

theorem getChange_safe_witness:
  "\<forall>ToString.
     getChange ToString [] Weight = Inr None
     \<and> getChange ToString [metric ''2024-01-01'' (Some 180), metric ''2024-01-08'' (Some 180)] Weight
         = Inr (Some \<lparr>change_value = ''0.0'', percent = ''0.0'', isPositive = False\<rparr>)
     \<and> element [metric ''2024-01-01'' (Some 180), metric ''2024-01-08'' (Some 180)] 1 \<noteq> None
     \<and> element [metric ''2024-01-01'' (Some 180), metric ''2024-01-08'' (Some 180)] 0 \<noteq> None
     \<and> getChange ToString [metric ''2024-01-01'' (Some 0), metric ''2024-01-08'' (Some 180)] Weight
         = Inr None"
proof
  fix ToString :: "rat \<Rightarrow> string"
  let ?ms = "[metric ''2024-01-01'' (Some 180), metric ''2024-01-08'' (Some 180)]"
  have same: "getChange ToString ?ms Weight
      = Inr (Some \<lparr>change_value = ''0.0'', percent = ''0.0'', isPositive = False\<rparr>)"
    by (simp add: getChange_long field_value_metric double_numeral double_0 falsy_def
        subtract_def divide_def multiply_def greater_def binary64_def toFixed_def fixed_digits_def
        digits_small Let_def)
  have zero: "getChange ToString [metric ''2024-01-01'' (Some 0), metric ''2024-01-08'' (Some 180)]
      Weight = Inr None"
    by (simp add: getChange_long field_value_metric double_numeral double_0 falsy_def)
  from getChange_safe [of ToString ?ms Weight]
  have "element ?ms (int (length ?ms) - 1) \<noteq> None \<and> element ?ms (int (length ?ms) - 2) \<noteq> None"
    by simp
  then have reads: "element ?ms 1 \<noteq> None \<and> element ?ms 0 \<noteq> None" by simp
  from getChange_safe [of ToString "[]" Weight]
  have empty: "getChange ToString [] Weight = Inr None"
    by (simp add: getChange_def)
  from same zero reads empty show
    "getChange ToString [] Weight = Inr None
     \<and> getChange ToString ?ms Weight
         = Inr (Some \<lparr>change_value = ''0.0'', percent = ''0.0'', isPositive = False\<rparr>)
     \<and> element ?ms 1 \<noteq> None
     \<and> element ?ms 0 \<noteq> None
     \<and> getChange ToString [metric ''2024-01-01'' (Some 0), metric ''2024-01-08'' (Some 180)] Weight
         = Inr None"
    by simp
qed

subsection \<open>The nearest double\<close>









lemma binary64_finite:
  "- (2 ^ 1024) < double x \<Longrightarrow> double x < 2 ^ 1024 \<Longrightarrow> binary64 x = Num (double x)"
  by (simp add: binary64_def Let_def)






text \<open>The sum of two integers is exact when it has at most 53 binary digits.\<close>

lemma binary64_add_int:
  assumes "\<bar>a + b\<bar> < 2 ^ 53"
  shows "binary64 (of_int a + of_int b) = Num (of_int (a + b))"
proof -
  have d: "double (of_int (a + b)) = of_int (a + b)" using assms by (rule double_of_int)
  have "(of_int \<bar>a + b\<bar> :: rat) < of_int (2 ^ 53)" using assms by (simp only: of_int_less_iff)
  then have "\<bar>of_int (a + b) :: rat\<bar> < 2 ^ 53" by simp
  then have "- (2 ^ 1024) < (of_int (a + b) :: rat)" "(of_int (a + b) :: rat) < 2 ^ 1024"
    by simp_all
  with d show ?thesis using binary64_finite [of "of_int (a + b)"] by simp
qed






section \<open>The printed change\<close>





















section \<open>The dashboard statistics\<close>




lemma thisWeekWorkouts_computeStats:
  "thisWeekWorkouts (computeStats tza now aw) = countSince (oneWeekAgo tza now) aw"
  by (simp add: computeStats_def Let_def)


text \<open>Seven days before, at the same time of the day.\<close>

lemma oneWeekAgo_local:
  "oneWeekAgo tza now = UTC tza (LocalTime tza now - 7 * msPerDay)"
proof -
  have "(Day t - 7) * msPerDay + TimeWithinDay t = t - 7 * msPerDay" for t
    by (simp add: Day_def TimeWithinDay_def algebra_simps)
  then show ?thesis
    by (simp add: oneWeekAgo_def MakeDate_def Let_def)
qed

lemma oneWeekAgo_fixed_zone: "oneWeekAgo (fixed_zone off) now = now - 7 * msPerDay"
  by (simp add: oneWeekAgo_local UTC_def LocalTime_def fixed_zone_def)



lemma length_filter_mono:
  "(\<And>x. x \<in> set xs \<Longrightarrow> P x \<Longrightarrow> Q x) \<Longrightarrow> length (filter P xs) \<le> length (filter Q xs)"
  by (induction xs) auto

lemma date_ge_iff: "date_ge d c \<longleftrightarrow> (\<exists>t. d = Some t \<and> c \<le> t)"
  by (cases d) simp_all

lemma Date_parse_jan1: "Date_parse ''2024-01-01'' = Some 1704067200000"
  by (simp add: Date_parse_def digit_value_def DaysInMonth_def MakeDate_def MakeDay_def
      DayFromYear_def DaysBeforeMonth_def InLeapYear_def msPerDay_def)

lemma Date_parse_jan5: "Date_parse ''2024-01-05'' = Some 1704412800000"
  by (simp add: Date_parse_def digit_value_def DaysInMonth_def MakeDate_def MakeDay_def
      DayFromYear_def DaysBeforeMonth_def InLeapYear_def msPerDay_def)

lemma Date_parse_dec25: "Date_parse ''2023-12-25'' = Some 1703462400000"
  by (simp add: Date_parse_def digit_value_def DaysInMonth_def MakeDate_def MakeDay_def
      DayFromYear_def DaysBeforeMonth_def InLeapYear_def msPerDay_def)




text \<open>
  Claim C7. For every response with rows and two cutoffs \<open>c1 \<le> c2\<close>, the rows counted
  from \<open>c2\<close> are at most the rows counted from \<open>c1\<close>; so a later clock never gives a
  larger value of \<open>thisWeekWorkouts\<close> for the same rows.
\<close>

theorem countSince_antimono:
  "(c1 \<le> c2 \<longrightarrow> countSince c2 allWorkouts \<le> countSince c1 allWorkouts)
   \<and> (oneWeekAgo tza1 now1 \<le> oneWeekAgo tza2 now2 \<longrightarrow>
        thisWeekWorkouts (computeStats tza2 now2 allWorkouts)
          \<le> thisWeekWorkouts (computeStats tza1 now1 allWorkouts))"
proof -
  have mono: "countSince c' allWorkouts \<le> countSince c allWorkouts" if "c \<le> c'" for c c'
  proof (cases allWorkouts)
    case None
    then show ?thesis by (simp add: countSince_def)
  next
    case (Some ws)
    have "length (filter (\<lambda>w. date_ge (Date_parse (date w)) c') ws)
        \<le> length (filter (\<lambda>w. date_ge (Date_parse (date w)) c) ws)"
    proof (rule length_filter_mono)
      fix w :: stat_row
      assume "date_ge (Date_parse (date w)) c'"
      with that show "date_ge (Date_parse (date w)) c"
        by (auto simp: date_ge_iff)
    qed
    with Some show ?thesis by (simp add: countSince_def)
  qed
  then show ?thesis
    by (simp add: thisWeekWorkouts_computeStats)
qed

theorem countSince_antimono_witness:
  "countSince 1704412800001 (Some [row_45, row_jan1, row_null])
     \<le> countSince 1704067200000 (Some [row_45, row_jan1, row_null])
   \<and> countSince 1704412800001 (Some [row_45, row_jan1, row_null]) = 0
   \<and> countSince 1704067200000 (Some [row_45, row_jan1, row_null]) = 2
   \<and> thisWeekWorkouts (computeStats (fixed_zone 0) (jan8 + 1) (Some [row_45, row_jan1, row_null]))
       \<le> thisWeekWorkouts (computeStats (fixed_zone 0) jan8 (Some [row_45, row_jan1, row_null]))"
proof -
  note claim = countSince_antimono
    [of 1704067200000 1704412800001 "Some [row_45, row_jan1, row_null]" "fixed_zone 0" jan8
      "fixed_zone 0" "jan8 + 1"]
  have cutoffs: "oneWeekAgo (fixed_zone 0) jan8 \<le> oneWeekAgo (fixed_zone 0) (jan8 + 1)"
    by (simp add: oneWeekAgo_fixed_zone)
  have counts: "countSince 1704412800001 (Some [row_45, row_jan1, row_null]) = 0"
    "countSince 1704067200000 (Some [row_45, row_jan1, row_null]) = 2"
    by (simp_all add: countSince_def row_jan1_def row_null_def row_45_def Date_parse_jan1
        Date_parse_jan5 Date_parse_dec25)
  from claim cutoffs counts show ?thesis by simp
qed

section \<open>The list of recent workouts\<close>

text \<open>
  Claim C9. Every card of the list of recent workouts gets the exercise count 0: there
  is one card for each workout of the state, and nothing else enters a card. The rows
  of \<open>workout_exercises\<close> are no argument of \<open>recentWorkouts\<close>, and \<open>getExerciseCount\<close>,
  which would count them, occurs in no other definition.
\<close>

theorem recentWorkouts_exerciseCount:
  "recentWorkouts st = Cards cards \<longrightarrow>
     length cards = length (workouts st) \<and> (\<forall>c \<in> set cards. exerciseCount c = 0)"
  by (auto simp: recentWorkouts_def split: if_splits)

text \<open>One workout with two exercises in the store: the helper would count 2, the card shows 0.\<close>

theorem recentWorkouts_exerciseCount_witness:
  "recentWorkouts (fst (loadDashboardData (fixed_zone 0) jan8 (ok [sample_workout]) (ok [row_jan1])
       initial_home_state))
     = Cards [\<lparr>card_key = ''w1'', card_name = ''Leg day'', card_date = ''2024-01-01'',
               card_duration = 30, exerciseCount = 0, card_onClick = ''/workouts/w1''\<rparr>]
   \<and> getExerciseCount (ok [''x1'', ''x2'']) = 2"
proof -
  let ?st = "fst (loadDashboardData (fixed_zone 0) jan8 (ok [sample_workout]) (ok [row_jan1])
       initial_home_state)"
  let ?card = "\<lparr>card_key = ''w1'', card_name = ''Leg day'', card_date = ''2024-01-01'',
               card_duration = 30, exerciseCount = 0, card_onClick = ''/workouts/w1''\<rparr>"
  have cards: "recentWorkouts ?st = Cards [?card]"
    by (simp add: recentWorkouts_def loadDashboardData_def ok_def initial_home_state_def
        sample_workout_def Let_def)
  from recentWorkouts_exerciseCount [of ?st "[?card]"] cards
  have "exerciseCount ?card = 0" by simp
  moreover have "getExerciseCount (ok [''x1'', ''x2'']) = 2"
    by (simp add: getExerciseCount_def ok_def)
  ultimately show ?thesis using cards by simp
qed

section \<open>The workout page\<close>

lemma loadWorkoutData_exercises:
  "error q1 = None \<Longrightarrow> error q2 = None \<Longrightarrow>
     workoutExercises (fst (loadWorkoutData q1 q2 st)) = data q2"
  by (simp add: loadWorkoutData_def Let_def)

lemma handleAddExercise_row:
  "fst (handleAddExercise workoutId ex det ri r1 r2 st) =
     (case insertRow workoutId st ex det of Inl e \<Rightarrow> None | Inr row \<Rightarrow> Some row)"
  by (simp add: handleAddExercise_def Let_def split: sum.splits prod.splits)

text \<open>
  Claim C6. The row that \<open>handleAddExercise\<close> sends has as \<open>order_index\<close> the length of
  the list of exercises in the state; after a load whose two queries succeeded, this is
  the number of rows that the query for the exercises of the workout returned.
\<close>

theorem handleAddExercise_order_index:
  "(workoutExercises st = Some xs \<longrightarrow>
      (\<exists>row. fst (handleAddExercise workoutId ex det ri r1 r2 st) = Some row
         \<and> ins_order_index row = of_nat (length xs)))
   \<and> (error q1 = None \<and> error q2 = None \<and> data q2 = Some rows \<longrightarrow>
      (\<exists>row. fst (handleAddExercise workoutId ex det ri r1 r2 (fst (loadWorkoutData q1 q2 st0)))
           = Some row
         \<and> ins_order_index row = of_nat (length rows)))"
proof -
  have sent: "\<exists>row. fst (handleAddExercise workoutId ex det ri r1 r2 s) = Some row
         \<and> ins_order_index row = of_nat (length ys)"
    if "workoutExercises s = Some ys" for s ys
    using that by (simp add: handleAddExercise_row insertRow_def)
  show ?thesis
  proof (intro conjI impI)
    assume "workoutExercises st = Some xs"
    then show "\<exists>row. fst (handleAddExercise workoutId ex det ri r1 r2 st) = Some row
         \<and> ins_order_index row = of_nat (length xs)"
      by (rule sent)
  next
    assume "error q1 = None \<and> error q2 = None \<and> data q2 = Some rows"
    then have "workoutExercises (fst (loadWorkoutData q1 q2 st0)) = Some rows"
      by (simp add: loadWorkoutData_exercises)
    then show "\<exists>row. fst (handleAddExercise workoutId ex det ri r1 r2 (fst (loadWorkoutData q1 q2 st0)))
           = Some row
         \<and> ins_order_index row = of_nat (length rows)"
      by (rule sent)
  qed
qed

text \<open>After a load that read two exercises, the next exercise is sent with index 2.\<close>

theorem handleAddExercise_order_index_witness:
  "fst (handleAddExercise ''w1'' sample_exercise sample_details (ok ()) (ok sample_workout)
        (ok [sample_joined ''a'' 0, sample_joined ''b'' 1, sample_joined ''c'' 2])
        (fst (loadWorkoutData (ok sample_workout)
               (ok [sample_joined ''a'' 0, sample_joined ''b'' 1]) initial_detail_state)))
     = Some \<lparr>ins_workout_id = ''w1'', ins_exercise_id = ''e1'', ins_sets = 3, ins_reps = 10,
             ins_weight = 0, ins_order_index = 2\<rparr>"
proof -
  let ?q2 = "ok [sample_joined ''a'' 0, sample_joined ''b'' 1] :: WorkoutExerciseJoined list response"
  let ?st = "fst (loadWorkoutData (ok sample_workout) ?q2 initial_detail_state)"
  let ?r2 = "ok [sample_joined ''a'' 0, sample_joined ''b'' 1, sample_joined ''c'' 2]
    :: WorkoutExerciseJoined list response"
  have "error (ok sample_workout) = None \<and> error ?q2 = None
      \<and> data ?q2 = Some [sample_joined ''a'' 0, sample_joined ''b'' 1]"
    by (simp add: ok_def)
  with handleAddExercise_order_index
    [of _ _ "''w1''" sample_exercise sample_details "ok ()" "ok sample_workout" "?r2"
      "ok sample_workout" "?q2" "[sample_joined ''a'' 0, sample_joined ''b'' 1]"
      initial_detail_state]
  obtain row where
    row: "fst (handleAddExercise ''w1'' sample_exercise sample_details (ok ()) (ok sample_workout)
        ?r2 ?st) = Some row" and
    index: "ins_order_index row = of_nat (length [sample_joined ''a'' 0, sample_joined ''b'' 1])"
    by blast
  have "fst (handleAddExercise ''w1'' sample_exercise sample_details (ok ()) (ok sample_workout)
        ?r2 ?st)
      = Some \<lparr>ins_workout_id = ''w1'', ins_exercise_id = ''e1'', ins_sets = 3, ins_reps = 10,
             ins_weight = 0, ins_order_index = 2\<rparr>"
    by (simp add: handleAddExercise_row insertRow_def loadWorkoutData_def ok_def
        initial_detail_state_def sample_exercise_def sample_details_def Let_def)
  with row index show ?thesis by simp
qed

text \<open>
  Claim C8. When the query for the workout succeeds without a row, the page shows
  "Workout not found". The absence raises no error: the only effects of the load are
  those of a failure of the second query, and there is none when that query succeeds.
\<close>

theorem absent_workout_not_found:
  assumes "error r1 = None" and "data r1 = None"
  shows "WorkoutDetailPage (fst (loadWorkoutData r1 r2 st)) = Inr WorkoutNotFound
    \<and> snd (loadWorkoutData r1 r2 st) =
        (if error r2 = None then []
         else [ConsoleError ''Error loading workout:'', ToastError ''Failed to load workout''])"
  using assms by (simp add: loadWorkoutData_def WorkoutDetailPage_def Let_def)

theorem absent_workout_not_found_witness:
  "WorkoutDetailPage (fst (loadWorkoutData no_row (ok []) initial_detail_state)) = Inr WorkoutNotFound
   \<and> snd (loadWorkoutData no_row (ok []) initial_detail_state) = []
   \<and> WorkoutDetailPage (fst (loadWorkoutData no_row failed initial_detail_state))
       = Inr WorkoutNotFound"
  using absent_workout_not_found [of no_row "ok []" initial_detail_state]
    absent_workout_not_found [of no_row failed initial_detail_state]
  by (simp add: no_row_def ok_def)

end
